theory Spec2Isabelle
  imports Main "HOL-Library.Sublist"
begin

section \<open>Python values and exceptions\<close>

text \<open>
  The exceptions that \<^verbatim>\<open>main.py\<close> can meet. \<open>KeyboardInterrupt\<close> is the only one
  that is not a subclass of \<open>Exception\<close>; \<open>OSError\<close> carries its message, and
  \<open>Exception\<close> stands for any other subclass of \<open>Exception\<close>.
\<close>

datatype exn =
    ValueError
  | OSError string
  | OverflowError
  | KeyboardInterrupt
  | Exception string

fun is_OSError :: "exn \<Rightarrow> bool" where
  "is_OSError (OSError _) = True"
| "is_OSError _ = False"

fun is_Exception :: "exn \<Rightarrow> bool" where
  "is_Exception KeyboardInterrupt = False"
| "is_Exception _ = True"

text \<open>
  \<^verbatim>\<open>os.environ\<close>: a dictionary from names to values. A value is given by the bytes
  that the environment of the process holds for it; the interpreter decodes them when
  the program reads them.
\<close>

type_synonym environ = "string \<rightharpoonup> string"

subsection \<open>\<^verbatim>\<open>str(i)\<close> of an integer, as an f-string formats it\<close>

fun str_nat :: "nat \<Rightarrow> string" where
  "str_nat n =
     (if n < 10 then [''0123456789'' ! n]
      else str_nat (n div 10) @ [''0123456789'' ! (n mod 10)])"

declare str_nat.simps [simp del]

definition str :: "int \<Rightarrow> string" where
  "str i = (if i < 0 then CHR ''-'' # str_nat (nat (- i)) else str_nat (nat i))"

section \<open>The world outside the process\<close>

text \<open>
  What the interpreter, the operating system and the library answer to the calls of
  \<^verbatim>\<open>main.py\<close>:
  \<^item> \<open>int_literal w s\<close>: the integer that \<^verbatim>\<open>int\<close> returns for the value \<open>s\<close> of the
    environment, or \<open>None\<close> when \<^verbatim>\<open>int\<close> raises \<open>ValueError\<close>, which is all that
    \<^verbatim>\<open>int\<close> raises on a string. What \<^verbatim>\<open>int\<close> accepts depends on the interpreter: its
    version, the encoding with which it decodes the environment, its limit on the number
    of digits;
  \<^item> \<open>exists_file w name\<close>: the file \<open>name\<close> exists in the serving root;
  \<^item> \<open>bind_error w host port\<close>: the message of the \<open>OSError\<close> that binding a socket
    to \<open>(host, port)\<close> raises, or \<open>None\<close> when the bind succeeds (a port is occupied at
    an address when this is \<open>Some\<close>);
  \<^item> \<open>host_lookup w\<close>: the host name and the address that \<^verbatim>\<open>socket.gethostname\<close> and
    \<^verbatim>\<open>socket.gethostbyname\<close> return, or the text of the \<open>Exception\<close> they raise;
  \<^item> \<open>browser_open w\<close>: the text of the \<open>Exception\<close> that \<^verbatim>\<open>webbrowser.open\<close>
    raises, if any;
  \<^item> \<open>serve_forever w\<close>: the exception that ends \<^verbatim>\<open>httpd.serve_forever()\<close>, an
    interrupt from the keyboard among them, or \<open>None\<close> when the loop never ends.
  The world is fixed during a run, and the keyboard interrupts the serve loop only.
  Printing is taken to succeed: the standard output accepts every text the script prints.
\<close>

record world =
  int_literal :: "string \<Rightarrow> int option"
  exists_file :: "string \<Rightarrow> bool"
  bind_error :: "string \<Rightarrow> int \<Rightarrow> string option"
  host_lookup :: "string + string \<times> string"
  browser_open :: "string option"
  serve_forever :: "exn option"

text \<open>
  \<^verbatim>\<open>s.bind((host, port))\<close>: the socket module refuses a port outside \<open>0..65535\<close>
  with \<open>OverflowError\<close> before the operating system is asked.
\<close>

definition socket_bind :: "world \<Rightarrow> string \<Rightarrow> int \<Rightarrow> exn + unit" where
  "socket_bind w host port =
     (if port < 0 \<or> 65535 < port then Inl OverflowError
      else case bind_error w host port of
             Some msg \<Rightarrow> Inl (OSError msg)
           | None \<Rightarrow> Inr ())"

text \<open>\<^verbatim>\<open>int(s)\<close> for a value of the environment, as a result or an exception.\<close>

definition py_int :: "world \<Rightarrow> string \<Rightarrow> exn + int" where
  "py_int w s = (case int_literal w s of None \<Rightarrow> Inl ValueError | Some n \<Rightarrow> Inr n)"

section \<open>Configuration\<close>

text \<open>
  The two assignments at the top of the module:
  \<^verbatim>\<open>PORT = int(os.environ.get('PORT', 8000))\<close> and
  \<^verbatim>\<open>HOST = os.environ.get('HOST', '0.0.0.0')\<close>.
\<close>

definition PORT :: "world \<Rightarrow> environ \<Rightarrow> exn + int" where
  "PORT w env = (case env ''PORT'' of None \<Rightarrow> Inr 8000 | Some s \<Rightarrow> py_int w s)"

definition HOST :: "environ \<Rightarrow> string" where
  "HOST env = (case env ''HOST'' of None \<Rightarrow> ''0.0.0.0'' | Some h \<Rightarrow> h)"

subsection \<open>\<^verbatim>\<open>find_free_port\<close>\<close>

text \<open>
  The function returns the port or raises; beside the result the model returns the list
  of the binds it attempted, each with the address and the port it was given.

  The loop over \<^verbatim>\<open>range(start_port, start_port + max_attempts)\<close>: the first candidate
  that binds is returned, an \<open>OSError\<close> moves on to the next candidate, any other
  exception leaves the function. \<open>None\<close> is the loop running to its end.
\<close>

type_synonym bind_attempt = "string \<times> int"

fun find_free_port_loop ::
  "world \<Rightarrow> int list \<Rightarrow> bind_attempt list \<times> (exn + int) option" where
  "find_free_port_loop w [] = ([], None)"
| "find_free_port_loop w (port # ports) =
     (case socket_bind w ''0.0.0.0'' port of
        Inr _ \<Rightarrow> ([(''0.0.0.0'', port)], Some (Inr port))
      | Inl e \<Rightarrow>
          if is_OSError e then
            (case find_free_port_loop w ports of
               (attempts, r) \<Rightarrow> ((''0.0.0.0'', port) # attempts, r))
          else ([(''0.0.0.0'', port)], Some (Inl e)))"

definition find_free_port ::
  "environ \<Rightarrow> world \<Rightarrow> int \<Rightarrow> int \<Rightarrow> bind_attempt list \<times> (exn + int)" where
  "find_free_port env w start_port max_attempts =
     (case env ''PORT'' of
        Some s \<Rightarrow> ([], py_int w s)
      | None \<Rightarrow>
          (case find_free_port_loop w [start_port .. start_port + max_attempts - 1] of
             (attempts, Some r) \<Rightarrow> (attempts, r)
           | (attempts, None) \<Rightarrow>
               (attempts,
                Inl (OSError (''Could not find a free port in range '' @ str start_port
                              @ ''-'' @ str (start_port + max_attempts))))))"

section \<open>Startup and the serve loop\<close>

text \<open>
  What a run does is recorded as a list of events. The printed texts are named rather
  than spelled out:
  \<^item> \<open>Title\<close>: the two lines \<^verbatim>\<open>main\<close> prints first;
  \<^item> \<open>Network_information hostname ip port\<close> and \<open>Network_info_unavailable e\<close>:
    what \<^verbatim>\<open>show_network_info\<close> prints;
  \<^item> \<open>Index_not_found\<close> (``Error: index.html not found in ...'') and \<open>Logo_warning\<close>:
    what \<^verbatim>\<open>check_files\<close> prints;
  \<^item> \<open>Port_error e\<close>: ``Error: e'', printed when \<^verbatim>\<open>find_free_port\<close> raised \<open>OSError\<close>;
  \<^item> \<open>Banner host port\<close>, \<open>Opening_browser\<close>, \<open>Browser_failed e\<close>, \<open>Started\<close>:
    the lines printed once the server is bound;
  \<^item> \<open>Stopped_by_user\<close>: ``Server stopped by user'';
  \<^item> \<open>Error_starting_server e\<close>: ``Error starting server: e'' and the hint after it.
\<close>

datatype message =
    Title
  | Network_information string string int
  | Network_info_unavailable string
  | Index_not_found
  | Logo_warning
  | Port_error exn
  | Banner string int
  | Opening_browser
  | Browser_failed string
  | Started
  | Stopped_by_user
  | Error_starting_server exn

text \<open>
  \<open>Bind_probe\<close> is a bind of a throwaway socket in \<^verbatim>\<open>find_free_port\<close>;
  \<open>TCPServer host port\<close> is the call of the constructor of the server and
  \<open>Listening host port\<close> its success, the listener being bound;
  \<open>Traceback e\<close> is the interpreter reporting an exception nobody caught.
\<close>

datatype event =
    Print message
  | Chdir
  | Bind_probe string int
  | TCPServer string int
  | Listening string int
  | Webbrowser_open string
  | Serve_forever
  | Server_close
  | Traceback exn

datatype 'a result = Returns 'a | Raises exn | Never_returns

subsection \<open>\<^verbatim>\<open>check_files\<close>\<close>

definition logo_files :: "string list" where
  "logo_files = [''logo.png'', ''logo.svg'', ''logo.jpg'', ''logo.jpeg'']"

definition check_files :: "world \<Rightarrow> event list \<times> bool" where
  "check_files w =
     (if \<not> exists_file w ''index.html'' then ([Print Index_not_found], False)
      else if \<not> list_ex (exists_file w) logo_files then ([Print Logo_warning], True)
      else ([], True))"

subsection \<open>\<^verbatim>\<open>start_server\<close>\<close>

text \<open>
  The two \<^verbatim>\<open>except\<close> clauses that close \<^verbatim>\<open>start_server\<close>, in the order of the
  source: \<open>KeyboardInterrupt\<close> first, then \<open>Exception\<close>; both print and let the function
  return. An exception of neither class would leave the function.
\<close>

definition start_server_except :: "exn \<Rightarrow> event list \<times> unit result" where
  "start_server_except e =
     (if e = KeyboardInterrupt then ([Print Stopped_by_user], Returns ())
      else if is_Exception e then ([Print (Error_starting_server e)], Returns ())
      else ([], Raises e))"

definition server_url :: "string \<Rightarrow> int \<Rightarrow> string" where
  "server_url host port = ''http://'' @ host @ '':'' @ str port"

text \<open>
  The \<^verbatim>\<open>with socketserver.TCPServer((HOST, port), ...) as httpd:\<close> block. The
  constructor binds the listener; when the bind raises, the constructor closes the
  socket and raises the same exception. After the banner and
  the attempt to open a browser, whose failure is printed and goes no further, the block
  serves until \<^verbatim>\<open>serve_forever\<close> raises, and then the \<^verbatim>\<open>with\<close> statement closes the
  server before the exception goes on.
\<close>

definition open_browser :: "world \<Rightarrow> string \<Rightarrow> event list" where
  "open_browser w url =
     (case browser_open w of
        None \<Rightarrow> [Webbrowser_open url, Print Opening_browser]
      | Some e \<Rightarrow> [Webbrowser_open url, Print (Browser_failed e)])"

definition with_TCPServer :: "world \<Rightarrow> string \<Rightarrow> int \<Rightarrow> event list \<times> unit result" where
  "with_TCPServer w host port =
     (case socket_bind w host port of
        Inl e \<Rightarrow> ([TCPServer host port, Server_close], Raises e)
      | Inr _ \<Rightarrow>
          (case serve_forever w of
             None \<Rightarrow>
               ([TCPServer host port, Listening host port, Print (Banner host port)]
                  @ open_browser w (server_url host port)
                  @ [Print Started, Serve_forever], Never_returns)
           | Some e \<Rightarrow>
               ([TCPServer host port, Listening host port, Print (Banner host port)]
                  @ open_browser w (server_url host port)
                  @ [Print Started, Serve_forever, Server_close], Raises e)))"

text \<open>
  Any exception raised in the body of \<^verbatim>\<open>start_server\<close> reaches the two closing
  \<^verbatim>\<open>except\<close> clauses.
\<close>

definition caught :: "event list \<times> unit result \<Rightarrow> event list \<times> unit result" where
  "caught r =
     (case r of
        (evs, Raises e) \<Rightarrow> (case start_server_except e of (evs', r') \<Rightarrow> (evs @ evs', r'))
      | _ \<Rightarrow> r)"

text \<open>
  The body of the outer \<^verbatim>\<open>try\<close> of \<^verbatim>\<open>start_server\<close>. \<open>P\<close> and \<open>H\<close> are the module's
  \<^verbatim>\<open>PORT\<close> and \<^verbatim>\<open>HOST\<close>. The change to the directory of the script is taken to succeed.
  The call is \<^verbatim>\<open>find_free_port(PORT)\<close>, so \<^verbatim>\<open>max_attempts\<close> has its default, 10. An
  \<open>OSError\<close> of \<^verbatim>\<open>find_free_port\<close> is caught by the inner \<^verbatim>\<open>try\<close>, printed, and the
  function returns; any other exception leaves the body.
\<close>

definition start_server_try ::
  "int \<Rightarrow> string \<Rightarrow> environ \<Rightarrow> world \<Rightarrow> event list \<times> unit result" where
  "start_server_try P H env w =
     (case check_files w of
        (checked, False) \<Rightarrow> (Chdir # checked, Returns ())
      | (checked, True) \<Rightarrow>
          (case find_free_port env w P 10 of
             (attempts, Inl e) \<Rightarrow>
               if is_OSError e then
                 (Chdir # checked @ map (\<lambda>(a, p). Bind_probe a p) attempts
                    @ [Print (Port_error e)], Returns ())
               else
                 (Chdir # checked @ map (\<lambda>(a, p). Bind_probe a p) attempts, Raises e)
           | (attempts, Inr port) \<Rightarrow>
               (case with_TCPServer w H port of
                  (evs, r) \<Rightarrow>
                    (Chdir # checked @ map (\<lambda>(a, p). Bind_probe a p) attempts @ evs, r))))"

text \<open>\<^verbatim>\<open>start_server\<close>: the body, and the two \<^verbatim>\<open>except\<close> clauses for what it raises.\<close>

definition start_server :: "int \<Rightarrow> string \<Rightarrow> environ \<Rightarrow> world \<Rightarrow> event list \<times> unit result" where
  "start_server P H env w = caught (start_server_try P H env w)"

subsection \<open>\<^verbatim>\<open>show_network_info\<close> and \<^verbatim>\<open>main\<close>\<close>

definition show_network_info :: "int \<Rightarrow> world \<Rightarrow> event list" where
  "show_network_info P w =
     (case host_lookup w of
        Inr (hostname, local_ip) \<Rightarrow> [Print (Network_information hostname local_ip P)]
      | Inl e \<Rightarrow> [Print (Network_info_unavailable e)])"

definition main :: "int \<Rightarrow> string \<Rightarrow> environ \<Rightarrow> world \<Rightarrow> event list \<times> unit result" where
  "main P H env w =
     (case start_server P H env w of
        (evs, r) \<Rightarrow> (Print Title # show_network_info P w @ evs, r))"

subsection \<open>The script\<close>

text \<open>
  Running \<^verbatim>\<open>main.py\<close>: the module body assigns \<^verbatim>\<open>PORT\<close> and \<^verbatim>\<open>HOST\<close>, defines the
  class and the functions, and calls \<^verbatim>\<open>main()\<close>. The interpreter exits with 0 when the
  module body ends and with a non-zero code (written 1 here) after reporting an exception
  that nobody caught; it does not exit while the serve loop runs.
\<close>

datatype exit = Exit int | No_exit

definition script :: "environ \<Rightarrow> world \<Rightarrow> event list \<times> exit" where
  "script env w =
     (case PORT w env of
        Inl e \<Rightarrow> ([Traceback e], Exit 1)
      | Inr P \<Rightarrow>
          (case main P (HOST env) env w of
             (evs, Returns _) \<Rightarrow> (evs, Exit 0)
           | (evs, Raises e) \<Rightarrow> (evs @ [Traceback e], Exit 1)
           | (evs, Never_returns) \<Rightarrow> (evs, No_exit)))"

definition is_listener :: "event \<Rightarrow> bool" where
  "is_listener ev = (case ev of TCPServer _ _ \<Rightarrow> True | Listening _ _ \<Rightarrow> True | _ \<Rightarrow> False)"

section \<open>The request handler\<close>

text \<open>
  \<open>CustomHTTPRequestHandler\<close> extends \<open>SimpleHTTPRequestHandler\<close> of Python's
  \<^verbatim>\<open>http.server\<close>. The state of a handler, as far as the two overridden methods and the
  library methods they call touch it: the path and the version of the request being
  handled (the attributes \<^verbatim>\<open>path\<close> and \<^verbatim>\<open>request_version\<close>), the buffer of header lines
  not yet sent (\<^verbatim>\<open>_headers_buffer\<close>), and what was written to the client so far, one
  element for each call of \<^verbatim>\<open>wfile.write\<close>.
\<close>

record handler =
  path :: string
  request_version :: string
  headers_buffer :: "string list"
  wfile :: "string list"

definition CRLF :: string where
  "CRLF = [CHR 0x0D, CHR 0x0A]"

subsection \<open>The methods of the base class\<close>

text \<open>
  \<open>BaseHTTPRequestHandler\<close> buffers the status line and the header lines and writes them
  with the blank line that ends them, in one write. While the attribute
  \<^verbatim>\<open>request_version\<close> is \<^verbatim>\<open>'HTTP/0.9'\<close> the three methods do nothing, and the response
  is the body alone. The attribute has this value by default; \<^verbatim>\<open>parse_request\<close> replaces
  it by the version of the request line only once it has accepted that version. So it
  is \<^verbatim>\<open>'HTTP/0.9'\<close> for a request line without a version (``\<^verbatim>\<open>GET /path\<close>''), for one
  that names this version, and also while \<^verbatim>\<open>parse_request\<close> answers 400 to a malformed
  version or 505 to a version from 2.0 on.
  \<^verbatim>\<open>
  def send_response_only(self, code, message=None):
      if self.request_version != 'HTTP/0.9':
          ...
          self._headers_buffer.append(("%s %d %s\r\n" %
                  (self.protocol_version, code, message)).encode('latin-1', 'strict'))
  def send_header(self, keyword, value):
      if self.request_version != 'HTTP/0.9':
          ...
          self._headers_buffer.append(
              ("%s: %s\r\n" % (keyword, value)).encode('latin-1', 'strict'))
      ...
  def end_headers(self):
      if self.request_version != 'HTTP/0.9':
          self._headers_buffer.append(b"\r\n")
          self.flush_headers()
  def flush_headers(self):
      if hasattr(self, '_headers_buffer'):
          self.wfile.write(b"".join(self._headers_buffer))
          self._headers_buffer = []
  \<close>
  The protocol version of the status line is the class attribute \<^verbatim>\<open>"HTTP/1.0"\<close>. What
  \<^verbatim>\<open>send_header\<close> notes about a \<open>Connection\<close> header does not reach the buffer and is
  left out.
\<close>

definition status_line :: "int \<Rightarrow> string \<Rightarrow> string" where
  "status_line code message = ''HTTP/1.0 '' @ str code @ '' '' @ message @ CRLF"

definition header_line :: "string \<Rightarrow> string \<Rightarrow> string" where
  "header_line keyword val = keyword @ '': '' @ val @ CRLF"

definition send_response_only :: "handler \<Rightarrow> int \<Rightarrow> string \<Rightarrow> handler" where
  "send_response_only h code message =
     (if request_version h \<noteq> ''HTTP/0.9''
      then h\<lparr>headers_buffer := headers_buffer h @ [status_line code message]\<rparr>
      else h)"

definition send_header :: "handler \<Rightarrow> string \<Rightarrow> string \<Rightarrow> handler" where
  "send_header h keyword val =
     (if request_version h \<noteq> ''HTTP/0.9''
      then h\<lparr>headers_buffer := headers_buffer h @ [header_line keyword val]\<rparr>
      else h)"

definition flush_headers :: "handler \<Rightarrow> handler" where
  "flush_headers h = h\<lparr>wfile := wfile h @ [concat (headers_buffer h)], headers_buffer := []\<rparr>"

definition base_end_headers :: "handler \<Rightarrow> handler" where
  "base_end_headers h =
     (if request_version h \<noteq> ''HTTP/0.9''
      then flush_headers (h\<lparr>headers_buffer := headers_buffer h @ [CRLF]\<rparr>)
      else h)"

subsection \<open>\<^verbatim>\<open>end_headers\<close>\<close>

text \<open>Six calls of \<^verbatim>\<open>self.send_header\<close>, then \<^verbatim>\<open>super().end_headers()\<close>.\<close>

definition end_headers :: "handler \<Rightarrow> handler" where
  "end_headers h =
     (let h = send_header h ''Access-Control-Allow-Origin'' ''*'';
          h = send_header h ''Access-Control-Allow-Methods'' ''GET, POST, OPTIONS'';
          h = send_header h ''Access-Control-Allow-Headers'' ''Content-Type'';
          h = send_header h ''X-Content-Type-Options'' ''nosniff'';
          h = send_header h ''X-Frame-Options'' ''DENY'';
          h = send_header h ''X-XSS-Protection'' ''1; mode=block''
      in base_end_headers h)"

subsection \<open>Responses\<close>

text \<open>
  Whatever method of the library answers a request (\<^verbatim>\<open>do_GET\<close> and \<^verbatim>\<open>do_HEAD\<close>
  through \<^verbatim>\<open>send_head\<close>, \<^verbatim>\<open>send_error\<close> for every error status), it produces the
  response by a sequence of calls on the handler: the status line, headers, the end of
  the headers, writes of the body. The calls go to \<^verbatim>\<open>self\<close>, so the end of the headers is
  the overriding \<^verbatim>\<open>end_headers\<close> above.
\<close>

datatype call =
    Send_response_only int string
  | Send_header string string
  | End_headers
  | Write string

fun perform :: "call \<Rightarrow> handler \<Rightarrow> handler" where
  "perform (Send_response_only code message) h = send_response_only h code message"
| "perform (Send_header keyword val) h = send_header h keyword val"
| "perform End_headers h = end_headers h"
| "perform (Write bytes) h = h\<lparr>wfile := wfile h @ [bytes]\<rparr>"

definition respond :: "call list \<Rightarrow> handler \<Rightarrow> handler" where
  "respond calls h = fold perform calls h"

subsection \<open>\<^verbatim>\<open>do_GET\<close>\<close>

text \<open>
  \<^verbatim>\<open>super().do_GET()\<close> is the library's static-file lookup; \<open>super_do_GET\<close> gives the
  calls it makes for a handler, which it reads after the rewrite of the path.
\<close>

definition do_GET :: "(handler \<Rightarrow> call list) \<Rightarrow> handler \<Rightarrow> handler" where
  "do_GET super_do_GET h =
     (let h = (if path h = ''/'' then h\<lparr>path := ''/index.html''\<rparr> else h)
      in respond (super_do_GET h) h)"

subsection \<open>\<^verbatim>\<open>do_HEAD\<close>\<close>

text \<open>
  The class does not override \<^verbatim>\<open>do_HEAD\<close>: a HEAD request runs the method of the
  library, which looks the path up as it is. \<open>super_do_HEAD\<close> gives the calls of that
  lookup.
\<close>

definition do_HEAD :: "(handler \<Rightarrow> call list) \<Rightarrow> handler \<Rightarrow> handler" where
  "do_HEAD super_do_HEAD h = respond (super_do_HEAD h) h"

subsection \<open>The parts of a response\<close>

text \<open>
  The lines that a list of calls puts into the buffer, and the writes it makes, when no
  call of it ends the headers and the request is not HTTP/0.9.
\<close>

fun call_lines :: "call \<Rightarrow> string list" where
  "call_lines (Send_response_only code message) = [status_line code message]"
| "call_lines (Send_header keyword val) = [header_line keyword val]"
| "call_lines End_headers = []"
| "call_lines (Write bytes) = []"

fun call_writes :: "call \<Rightarrow> string list" where
  "call_writes (Write bytes) = [bytes]"
| "call_writes _ = []"

definition buffered :: "call list \<Rightarrow> string list" where
  "buffered calls = concat (map call_lines calls)"

definition written :: "call list \<Rightarrow> string list" where
  "written calls = concat (map call_writes calls)"

text \<open>The bytes of a header block: its lines, then the blank line.\<close>

definition header_block :: "string list \<Rightarrow> string" where
  "header_block lines = concat (lines @ [CRLF])"

text \<open>The six headers of the specification, and the lines they make.\<close>

definition injected_headers :: "(string \<times> string) list" where
  "injected_headers =
     [(''Access-Control-Allow-Origin'', ''*''),
      (''Access-Control-Allow-Methods'', ''GET, POST, OPTIONS''),
      (''Access-Control-Allow-Headers'', ''Content-Type''),
      (''X-Content-Type-Options'', ''nosniff''),
      (''X-Frame-Options'', ''DENY''),
      (''X-XSS-Protection'', ''1; mode=block'')]"

definition injected_lines :: "string list" where
  "injected_lines = map (\<lambda>(keyword, val). header_line keyword val) injected_headers"

text \<open>
  The bytes of a header line occur somewhere in the bytes of a response. A response that
  carries the header satisfies this, so a response that fails it does not carry the
  header.
\<close>

definition includes_header :: "string \<Rightarrow> string \<times> string \<Rightarrow> bool" where
  "includes_header response kv \<longleftrightarrow> sublist (header_line (fst kv) (snd kv)) response"

section \<open>An interpreter's \<^verbatim>\<open>int\<close>\<close>

text \<open>
  The \<^verbatim>\<open>int\<close> of one interpreter, which the example worlds use: CPython 3.11 (Unicode
  14) decoding the environment as UTF-8 and keeping its default limit of 4300 digits.
  A value reaches \<^verbatim>\<open>int\<close> decoded. A byte that is not part of well-formed UTF-8 is
  decoded to a lone surrogate, which \<^verbatim>\<open>int\<close> rejects, so \<open>utf8_decode\<close> gives no result
  for such a value.
\<close>

definition continuation :: "int \<Rightarrow> bool" where
  "continuation b \<longleftrightarrow> 128 \<le> b \<and> b < 192"

fun utf8_decode :: "int list \<Rightarrow> int list option" where
  "utf8_decode [] = Some []"
| "utf8_decode (b # bs) =
     (if b < 128 then map_option ((#) b) (utf8_decode bs)
      else if 194 \<le> b \<and> b < 224 then
        (case bs of
           c1 # rest \<Rightarrow>
             if continuation c1
             then map_option ((#) ((b - 192) * 64 + (c1 - 128))) (utf8_decode rest)
             else None
         | _ \<Rightarrow> None)
      else if 224 \<le> b \<and> b < 240 then
        (case bs of
           c1 # c2 # rest \<Rightarrow>
             if continuation c1 \<and> continuation c2
                \<and> 2048 \<le> (b - 224) * 4096 + (c1 - 128) * 64 + (c2 - 128)
                \<and> \<not> (55296 \<le> (b - 224) * 4096 + (c1 - 128) * 64 + (c2 - 128)
                       \<and> (b - 224) * 4096 + (c1 - 128) * 64 + (c2 - 128) < 57344)
             then map_option ((#) ((b - 224) * 4096 + (c1 - 128) * 64 + (c2 - 128)))
                    (utf8_decode rest)
             else None
         | _ \<Rightarrow> None)
      else if 240 \<le> b \<and> b < 245 then
        (case bs of
           c1 # c2 # c3 # rest \<Rightarrow>
             if continuation c1 \<and> continuation c2 \<and> continuation c3
                \<and> 65536 \<le> (b - 240) * 262144 + (c1 - 128) * 4096 + (c2 - 128) * 64 + (c3 - 128)
                \<and> (b - 240) * 262144 + (c1 - 128) * 4096 + (c2 - 128) * 64 + (c3 - 128) < 1114112
             then map_option
                    ((#) ((b - 240) * 262144 + (c1 - 128) * 4096 + (c2 - 128) * 64 + (c3 - 128)))
                    (utf8_decode rest)
             else None
         | _ \<Rightarrow> None)
      else None)"

text \<open>
  Before it reads the digits \<^verbatim>\<open>int\<close> replaces, in a string that is not ASCII, every
  white space character above 127 by a space and every decimal digit above 127 by the
  ASCII digit of its value; any other character above 126 makes the string invalid. The
  decimal digits come in runs of ten, from the zero on; \<open>decimal_zeros\<close> lists the
  zeros above 127.
\<close>

definition unicode_space :: "int \<Rightarrow> bool" where
  "unicode_space c \<longleftrightarrow>
     c \<in> {0x85, 0xA0, 0x1680, 0x2028, 0x2029, 0x202F, 0x205F, 0x3000} \<or> (0x2000 \<le> c \<and> c \<le> 0x200A)"

definition decimal_zeros :: "int list" where
  "decimal_zeros =
     [
      0x660, 0x6F0, 0x7C0, 0x966, 0x9E6, 0xA66, 0xAE6, 0xB66,
      0xBE6, 0xC66, 0xCE6, 0xD66, 0xDE6, 0xE50, 0xED0, 0xF20,
      0x1040, 0x1090, 0x17E0, 0x1810, 0x1946, 0x19D0, 0x1A80, 0x1A90,
      0x1B50, 0x1BB0, 0x1C40, 0x1C50, 0xA620, 0xA8D0, 0xA900, 0xA9D0,
      0xA9F0, 0xAA50, 0xABF0, 0xFF10, 0x104A0, 0x10D30, 0x11066, 0x110F0,
      0x11136, 0x111D0, 0x112F0, 0x11450, 0x114D0, 0x11650, 0x116C0, 0x11730,
      0x118E0, 0x11950, 0x11C50, 0x11D50, 0x11DA0, 0x16A60, 0x16AC0, 0x16B50,
      0x1D7CE, 0x1D7D8, 0x1D7E2, 0x1D7EC, 0x1D7F6, 0x1E140, 0x1E2F0, 0x1E950,
      0x1FBF0]"

definition to_ascii_char :: "int \<Rightarrow> int option" where
  "to_ascii_char c =
     (if c < 127 then Some c
      else if unicode_space c then Some 32
      else (case find (\<lambda>z. z \<le> c \<and> c < z + 10) decimal_zeros of
              None \<Rightarrow> None
            | Some z \<Rightarrow> Some (48 + (c - z))))"

fun to_ascii :: "int list \<Rightarrow> int list option" where
  "to_ascii [] = Some []"
| "to_ascii (c # cs) =
     (case to_ascii_char c of
        None \<Rightarrow> None
      | Some a \<Rightarrow> map_option ((#) a) (to_ascii cs))"

text \<open>
  Reading the ASCII string, base ten: white space (the characters 9 to 13 and 32) is
  skipped on both sides, one sign may follow, then decimal digits, where a single
  underscore (95) may stand between two digits. A literal of more than 4300 digits is
  refused.
\<close>

definition is_space :: "int \<Rightarrow> bool" where
  "is_space c \<longleftrightarrow> c \<in> {9, 10, 11, 12, 13, 32}"

definition is_digit :: "int \<Rightarrow> bool" where
  "is_digit c \<longleftrightarrow> 48 \<le> c \<and> c \<le> 57"

definition strip :: "int list \<Rightarrow> int list" where
  "strip s = rev (dropWhile is_space (rev (dropWhile is_space s)))"

fun digits :: "int list \<Rightarrow> int \<Rightarrow> int option" where
  "digits [] acc = Some acc"
| "digits [c] acc = (if is_digit c then Some (10 * acc + (c - 48)) else None)"
| "digits (c # d # ds) acc =
     (if c = 95 then
        (if is_digit d then digits ds (10 * acc + (d - 48)) else None)
      else if is_digit c then digits (d # ds) (10 * acc + (c - 48))
      else None)"

definition split_sign :: "int list \<Rightarrow> bool \<times> int list" where
  "split_sign t =
     (case t of
        [] \<Rightarrow> (False, [])
      | c # cs \<Rightarrow>
          if c = 45 then (True, cs)
          else if c = 43 then (False, cs)
          else (False, t))"

definition long_from_string :: "int list \<Rightarrow> int option" where
  "long_from_string s =
     (case split_sign (strip s) of
        (negative, body) \<Rightarrow>
          (case body of
             [] \<Rightarrow> None
           | c # cs \<Rightarrow>
               if \<not> is_digit c then None
               else (case digits cs (c - 48) of
                       None \<Rightarrow> None
                     | Some n \<Rightarrow>
                         if 4300 < length (filter is_digit body) then None
                         else Some (if negative then - n else n))))"

definition int_utf8 :: "string \<Rightarrow> int option" where
  "int_utf8 s =
     (case utf8_decode (map of_char s) of
        None \<Rightarrow> None
      | Some points \<Rightarrow>
          (case to_ascii points of
             None \<Rightarrow> None
           | Some ascii \<Rightarrow> long_from_string ascii))"

section \<open>Example inputs\<close>

text \<open>
  A development machine: the interpreter above, the serving root holds \<^verbatim>\<open>index.html\<close>
  and \<^verbatim>\<open>logo.png\<close>, every port is free, and the operator stops the server with Ctrl+C.
\<close>

definition dev_world :: world where
  "dev_world =
     \<lparr>int_literal = int_utf8,
      exists_file = (\<lambda>name. name \<in> {''index.html'', ''logo.png''}),
      bind_error = (\<lambda>host port. None),
      host_lookup = Inr (''devbox'', ''192.168.1.20''),
      browser_open = None,
      serve_forever = Some KeyboardInterrupt\<rparr>"

text \<open>The same machine with ports 8000, 8001 and 8002 taken.\<close>

definition three_taken :: world where
  "three_taken =
     dev_world\<lparr>bind_error :=
       (\<lambda>host port. if 8000 \<le> port \<and> port \<le> 8002 then Some ''Address already in use''
                     else None)\<rparr>"

text \<open>With every port taken.\<close>

definition all_taken :: world where
  "all_taken = dev_world\<lparr>bind_error := (\<lambda>host port. Some ''Address already in use'')\<rparr>"

text \<open>With no \<^verbatim>\<open>index.html\<close> in the serving root.\<close>

definition no_index :: world where
  "no_index = dev_world\<lparr>exists_file := (\<lambda>name. False)\<rparr>"


text \<open>Environments: nothing set, and \<open>PORT\<close> set to three different strings.\<close>

definition env_unset :: environ where
  "env_unset = Map.empty"

definition env_port_8080 :: environ where
  "env_port_8080 = [''PORT'' \<mapsto> ''8080'']"

definition env_port_70000 :: environ where
  "env_port_70000 = [''PORT'' \<mapsto> ''70000'']"

definition env_port_http :: environ where
  "env_port_http = [''PORT'' \<mapsto> ''http'']"

text \<open>
  A static-file lookup over a root that holds \<^verbatim>\<open>index.html\<close> only: the calls of
  \<^verbatim>\<open>send_head\<close> for the file, those of \<^verbatim>\<open>send_error(404, "File not found")\<close> for
  any other path.
\<close>

definition found_calls :: "call list" where
  "found_calls =
     [Send_response_only 200 ''OK'',
      Send_header ''Server'' ''SimpleHTTP/0.6 Python/3.11.10'',
      Send_header ''Date'' ''Tue, 03 Nov 2026 10:00:00 GMT'',
      Send_header ''Content-type'' ''text/html'',
      Send_header ''Content-Length'' ''13'',
      End_headers,
      Write ''<html></html>'']"

definition not_found_head :: "call list" where
  "not_found_head =
     [Send_response_only 404 ''File not found'',
      Send_header ''Server'' ''SimpleHTTP/0.6 Python/3.11.10'',
      Send_header ''Date'' ''Tue, 03 Nov 2026 10:00:00 GMT'',
      Send_header ''Connection'' ''close'',
      Send_header ''Content-Type'' ''text/html;charset=utf-8'',
      Send_header ''Content-Length'' ''9'']"

definition not_found_calls :: "call list" where
  "not_found_calls = not_found_head @ [End_headers, Write ''Not found'']"

definition index_only :: "handler \<Rightarrow> call list" where
  "index_only h = (if path h = ''/index.html'' then found_calls else not_found_calls)"

text \<open>A request \<^verbatim>\<open>GET /missing.css HTTP/1.1\<close> and a request \<^verbatim>\<open>GET /index.html\<close>.\<close>

definition missing_request :: handler where
  "missing_request =
     \<lparr>path = ''/missing.css'', request_version = ''HTTP/1.1'', headers_buffer = [], wfile = []\<rparr>"

definition simple_request :: handler where
  "simple_request =
     \<lparr>path = ''/index.html'', request_version = ''HTTP/0.9'', headers_buffer = [], wfile = []\<rparr>"

text \<open>
  The lookup of a HEAD request over a root in which \<^verbatim>\<open>index.html\<close> is a directory:
  \<^verbatim>\<open>send_head\<close> lists the root for the path \<^verbatim>\<open>/\<close>, as no file \<^verbatim>\<open>index.html\<close> is there,
  and redirects the path \<^verbatim>\<open>/index.html\<close>, which names a directory without the final
  slash. A HEAD request gets no body.
\<close>

definition listing_calls :: "call list" where
  "listing_calls =
     [Send_response_only 200 ''OK'',
      Send_header ''Server'' ''SimpleHTTP/0.6 Python/3.11.10'',
      Send_header ''Date'' ''Tue, 03 Nov 2026 10:00:00 GMT'',
      Send_header ''Content-type'' ''text/html; charset=utf-8'',
      Send_header ''Content-Length'' ''336'',
      End_headers]"

definition moved_calls :: "call list" where
  "moved_calls =
     [Send_response_only 301 ''Moved Permanently'',
      Send_header ''Server'' ''SimpleHTTP/0.6 Python/3.11.10'',
      Send_header ''Date'' ''Tue, 03 Nov 2026 10:00:00 GMT'',
      Send_header ''Location'' ''/index.html/'',
      Send_header ''Content-Length'' ''0'',
      End_headers]"

definition index_is_directory :: "handler \<Rightarrow> call list" where
  "index_is_directory h =
     (if path h = ''/'' then listing_calls
      else if path h = ''/index.html'' then moved_calls
      else not_found_head @ [End_headers])"

text \<open>The requests \<^verbatim>\<open>HEAD / HTTP/1.1\<close> and \<^verbatim>\<open>HEAD /index.html HTTP/1.1\<close>.\<close>

definition head_root :: handler where
  "head_root =
     \<lparr>path = ''/'', request_version = ''HTTP/1.1'', headers_buffer = [], wfile = []\<rparr>"

definition head_index :: handler where
  "head_index =
     \<lparr>path = ''/index.html'', request_version = ''HTTP/1.1'', headers_buffer = [], wfile = []\<rparr>"

section \<open>Facts about binding and the scan\<close>

lemma socket_bind_taken:
  "0 \<le> p \<Longrightarrow> p \<le> 65535 \<Longrightarrow> bind_error w host p = Some msg \<Longrightarrow>
   socket_bind w host p = Inl (OSError msg)"
  by (simp add: socket_bind_def)

lemma socket_bind_free:
  "0 \<le> p \<Longrightarrow> p \<le> 65535 \<Longrightarrow> bind_error w host p = None \<Longrightarrow> socket_bind w host p = Inr ()"
  by (simp add: socket_bind_def)

lemma loop_attempts_wildcard:
  "a \<in> set (fst (find_free_port_loop w ports)) \<Longrightarrow> fst a = ''0.0.0.0''"
  by (induction ports) (auto split: sum.splits prod.splits if_splits)

text \<open>Candidates that are taken are tried and passed over.\<close>

lemma loop_skips_taken:
  "(\<And>p. p \<in> set ps \<Longrightarrow> 0 \<le> p \<and> p \<le> 65535 \<and> bind_error w ''0.0.0.0'' p \<noteq> None) \<Longrightarrow>
   find_free_port_loop w (ps @ qs) =
     (map (Pair ''0.0.0.0'') ps @ fst (find_free_port_loop w qs), snd (find_free_port_loop w qs))"
proof (induction ps)
  case Nil
  show ?case by simp
next
  case (Cons p ps)
  from Cons.prems [of p] obtain msg where "socket_bind w ''0.0.0.0'' p = Inl (OSError msg)"
    using socket_bind_taken [of p w "''0.0.0.0''"] by auto
  moreover have "find_free_port_loop w (ps @ qs) =
     (map (Pair ''0.0.0.0'') ps @ fst (find_free_port_loop w qs), snd (find_free_port_loop w qs))"
    using Cons.IH Cons.prems by simp
  ultimately show ?case by simp
qed

text \<open>A port the loop returns is one of the candidates, and it did bind.\<close>

lemma loop_returns_member:
  "find_free_port_loop w ports = (attempts, Some (Inr p)) \<Longrightarrow>
   p \<in> set ports \<and> socket_bind w ''0.0.0.0'' p = Inr ()"
  by (induction ports arbitrary: attempts)
     (auto split: sum.splits prod.splits if_splits)

section \<open>Port given by the environment\<close>

text \<open>
  C2. When the environment sets \<open>PORT\<close> to a value that \<^verbatim>\<open>int\<close> reads as \<open>P\<close>, whatever
  the interpreter's \<^verbatim>\<open>int\<close> accepts, \<open>find_free_port\<close> returns \<open>P\<close> and attempts no bind
  at all, whatever the start port, the number of attempts and the state of the ports.
\<close>

theorem find_free_port_env_port:
  "env ''PORT'' = Some s \<Longrightarrow> int_literal w s = Some P \<Longrightarrow>
   find_free_port env w start_port max_attempts = ([], Inr P)"
  by (simp add: find_free_port_def py_int_def)

theorem find_free_port_env_port_witness:
  "env_port_8080 ''PORT'' = Some ''8080'' \<and> int_literal all_taken ''8080'' = Some 8080 \<and>
   find_free_port env_port_8080 all_taken 8000 10 = ([], Inr 8080)"
proof -
  have e: "env_port_8080 ''PORT'' = Some ''8080''"
    by (simp add: env_port_8080_def)
  have "int_utf8 ''8080'' = Some 8080"
    by code_simp
  then have p: "int_literal all_taken ''8080'' = Some 8080"
    by (simp add: all_taken_def dev_world_def)
  from find_free_port_env_port [of env_port_8080 "''8080''" all_taken 8080 8000 10] e p
  show ?thesis
    by simp
qed

section \<open>The scan of the ports\<close>

text \<open>
  C3. When \<open>PORT\<close> is not set, the start port is the default 8000 and ten candidates are
  tried. If binding the wildcard address fails on the \<open>k\<close> ports from 8000 on and
  succeeds on port \<open>8000 + k\<close>, with \<open>k < 10\<close>, then \<open>find_free_port\<close> returns
  \<open>8000 + k\<close>, having tried the ports from 8000 to \<open>8000 + k\<close> in ascending order.
\<close>

theorem find_free_port_first_free:
  assumes unset: "env ''PORT'' = None"
    and k: "k < 10"
    and taken: "\<forall>i<k. bind_error w ''0.0.0.0'' (8000 + int i) \<noteq> None"
    and free: "bind_error w ''0.0.0.0'' (8000 + int k) = None"
  shows "PORT w env = Inr 8000 \<and>
         find_free_port env w 8000 10 =
           (map (Pair ''0.0.0.0'') [8000 .. 8000 + int k], Inr (8000 + int k))"
proof -
  define q where "q = 8000 + int k"
  have q: "8000 \<le> q" "q \<le> 8009"
    using k by (simp_all add: q_def)
  have split: "[8000 .. 8009] = [8000 .. q - 1] @ q # [q + 1 .. 8009]"
    using q by (rule upto_split3)
  have before: "0 \<le> p \<and> p \<le> 65535 \<and> bind_error w ''0.0.0.0'' p \<noteq> None"
    if "p \<in> set [8000 .. q - 1]" for p
  proof -
    from that have p: "8000 \<le> p" "p < q" by auto
    then have "nat (p - 8000) < k" 
      by (simp add: q_def)
    with taken have "bind_error w ''0.0.0.0'' (8000 + int (nat (p - 8000))) \<noteq> None"
      by blast
    moreover have "8000 + int (nat (p - 8000)) = p"
      using p by simp
    ultimately show ?thesis
      using p q by simp
  qed
  have "socket_bind w ''0.0.0.0'' q = Inr ()"
    using free q by (intro socket_bind_free) (simp_all add: q_def)
  then have here: "find_free_port_loop w (q # [q + 1 .. 8009]) = ([(''0.0.0.0'', q)], Some (Inr q))"
    by simp
  have "find_free_port_loop w ([8000 .. q - 1] @ q # [q + 1 .. 8009]) =
          (map (Pair ''0.0.0.0'') [8000 .. q - 1] @ fst (find_free_port_loop w (q # [q + 1 .. 8009])),
           snd (find_free_port_loop w (q # [q + 1 .. 8009])))"
    using before by (rule loop_skips_taken)
  then have "find_free_port_loop w [8000 .. 8009] =
          (map (Pair ''0.0.0.0'') [8000 .. q - 1] @ [(''0.0.0.0'', q)], Some (Inr q))"
    by (simp only: split here fst_conv snd_conv)
  moreover have "[8000 .. q] = [8000 .. q - 1] @ [q]"
    using q(1) by (rule upto_rec2)
  then have "map (Pair ''0.0.0.0'') [8000 .. q] = map (Pair ''0.0.0.0'') [8000 .. q - 1] @ [(''0.0.0.0'', q)]"
    by (simp only: map_append list.map)
  ultimately have "find_free_port_loop w [8000 .. 8009] = (map (Pair ''0.0.0.0'') [8000 .. q], Some (Inr q))"
    by simp
  with unset show ?thesis
    by (simp add: find_free_port_def PORT_def q_def)
qed

theorem find_free_port_first_free_witness:
  "env_unset ''PORT'' = None \<and>
   bind_error three_taken ''0.0.0.0'' 8000 = Some ''Address already in use'' \<and>
   bind_error three_taken ''0.0.0.0'' 8001 = Some ''Address already in use'' \<and>
   bind_error three_taken ''0.0.0.0'' 8002 = Some ''Address already in use'' \<and>
   bind_error three_taken ''0.0.0.0'' 8003 = None \<and>
   PORT three_taken env_unset = Inr 8000 \<and>
   find_free_port env_unset three_taken 8000 10 =
     ([(''0.0.0.0'', 8000), (''0.0.0.0'', 8001), (''0.0.0.0'', 8002), (''0.0.0.0'', 8003)],
      Inr 8003)"
proof -
  have taken: "\<forall>i<3. bind_error three_taken ''0.0.0.0'' (8000 + int i) \<noteq> None"
    by (simp add: three_taken_def dev_world_def)
  have free: "bind_error three_taken ''0.0.0.0'' (8000 + int 3) = None"
    by (simp add: three_taken_def dev_world_def)
  have unset: "env_unset ''PORT'' = None"
    by (simp add: env_unset_def)
  have "[8000 .. 8000 + int 3] = [8000, 8001, 8002, 8003]"
    by simp
  with find_free_port_first_free [of env_unset 3 three_taken] unset taken free
  show ?thesis
    by (simp add: three_taken_def dev_world_def)
qed

text \<open>
  C10. Every bind that \<open>find_free_port\<close> attempts is a bind of the wildcard address
  \<^verbatim>\<open>'0.0.0.0'\<close>, and setting, changing or removing \<open>HOST\<close> in the environment changes
  neither the attempts nor the result.
\<close>

theorem scan_ignores_host:
  "(\<forall>a \<in> set (fst (find_free_port env w start_port max_attempts)). fst a = ''0.0.0.0'') \<and>
   find_free_port (env(''HOST'' := h)) w start_port max_attempts =
     find_free_port env w start_port max_attempts"
proof
  show "\<forall>a \<in> set (fst (find_free_port env w start_port max_attempts)). fst a = ''0.0.0.0''"
  proof (cases "env ''PORT''")
    case (Some s)
    then show ?thesis by (simp add: find_free_port_def)
  next
    case None
    obtain attempts r where
      loop: "find_free_port_loop w [start_port .. start_port + max_attempts - 1] = (attempts, r)"
      by (cases "find_free_port_loop w [start_port .. start_port + max_attempts - 1]")
    then have "fst (find_free_port env w start_port max_attempts) = attempts"
      using None by (cases r) (simp_all add: find_free_port_def)
    moreover have "\<forall>a \<in> set attempts. fst a = ''0.0.0.0''"
      using loop_attempts_wildcard [of _ w "[start_port .. start_port + max_attempts - 1]"] loop
      by simp
    ultimately show ?thesis by simp
  qed
next
  show "find_free_port (env(''HOST'' := h)) w start_port max_attempts =
     find_free_port env w start_port max_attempts"
    by (simp add: find_free_port_def)
qed

theorem scan_ignores_host_witness:
  "fst (find_free_port env_unset three_taken 8000 10) =
     [(''0.0.0.0'', 8000), (''0.0.0.0'', 8001), (''0.0.0.0'', 8002), (''0.0.0.0'', 8003)] \<and>
   find_free_port (env_unset(''HOST'' := Some ''127.0.0.1'')) three_taken 8000 10 =
     find_free_port env_unset three_taken 8000 10"
proof -
  have "fst (find_free_port env_unset three_taken 8000 10) =
     [(''0.0.0.0'', 8000), (''0.0.0.0'', 8001), (''0.0.0.0'', 8002), (''0.0.0.0'', 8003)]"
    by (simp add: find_free_port_def env_unset_def three_taken_def dev_world_def socket_bind_def)
  with scan_ignores_host [of env_unset three_taken 8000 10 "Some ''127.0.0.1''"]
  show ?thesis by blast
qed

section \<open>The range of the resolved port\<close>

text \<open>
  C8, as stated, fails: a value given through \<open>PORT\<close> is returned as \<^verbatim>\<open>int\<close> reads it,
  without a check of its range. With \<^verbatim>\<open>PORT=70000\<close> the module's \<^verbatim>\<open>PORT\<close> is 70000 and
  \<^verbatim>\<open>find_free_port(PORT)\<close> succeeds with 70000, which is no TCP port.
\<close>

theorem env_port_out_of_range:
  "PORT dev_world env_port_70000 = Inr 70000 \<and>
   find_free_port env_port_70000 dev_world 70000 10 = ([], Inr 70000) \<and>
   \<not> (1 \<le> (70000::int) \<and> (70000::int) \<le> 65535)"
proof -
  have "int_utf8 ''70000'' = Some 70000"
    by code_simp
  then have "py_int dev_world ''70000'' = Inr 70000"
    by (simp add: py_int_def dev_world_def)
  then show ?thesis
    by (simp add: PORT_def find_free_port_def env_port_70000_def)
qed

text \<open>
  C8, amended. When \<open>PORT\<close> is not set and \<open>find_free_port\<close> succeeds, the port it
  returns is one of the ten candidates 8000 to 8009, so it lies within \<open>1..65535\<close>.
\<close>

theorem scanned_port_in_range:
  assumes "env ''PORT'' = None"
    and "snd (find_free_port env w 8000 10) = Inr p"
  shows "8000 \<le> p \<and> p \<le> 8009 \<and> 1 \<le> p \<and> p \<le> 65535"
proof -
  obtain attempts r where loop: "find_free_port_loop w [8000 .. 8009] = (attempts, r)"
    by (cases "find_free_port_loop w [8000 .. 8009]")
  with assms have "r = Some (Inr p)"
    by (cases r) (simp_all add: find_free_port_def)
  with loop have "p \<in> set [8000 .. 8009]"
    using loop_returns_member [of w "[8000 .. 8009]" attempts p] by simp
  then have "8000 \<le> p \<and> p \<le> 8009"
    by (simp only: set_upto atLeastAtMost_iff)
  then show ?thesis by simp
qed

theorem scanned_port_in_range_witness:
  "env_unset ''PORT'' = None \<and> snd (find_free_port env_unset three_taken 8000 10) = Inr 8003 \<and>
   (8000::int) \<le> 8003 \<and> (8003::int) \<le> 8009 \<and> (1::int) \<le> 8003 \<and> (8003::int) \<le> 65535"
proof -
  have unset: "env_unset ''PORT'' = None"
    by (simp add: env_unset_def)
  have r: "snd (find_free_port env_unset three_taken 8000 10) = Inr 8003"
    by (simp add: find_free_port_def env_unset_def three_taken_def dev_world_def socket_bind_def)
  from scanned_port_in_range [of env_unset three_taken 8003, OF unset r] unset r show ?thesis
    by simp
qed

section \<open>Facts about the run of the script\<close>

text \<open>Printing, changing directory and probing a port create no listener.\<close>

lemma no_listener_show_network_info: "filter is_listener (show_network_info P w) = []"
  by (simp add: show_network_info_def is_listener_def split: sum.splits prod.splits)

lemma no_listener_check_files: "filter is_listener (fst (check_files w)) = []"
  by (simp add: check_files_def is_listener_def)

lemma no_listener_probes: "filter is_listener (map (\<lambda>(a, p). Bind_probe a p) attempts) = []"
  by (induction attempts) (auto simp: is_listener_def)

lemma probes_wildcard:
  "map (\<lambda>(a, p). Bind_probe a p) (map (Pair host) ports) = map (Bind_probe host) ports"
  by (induction ports) simp_all

lemma no_listener_wildcard_probes: "filter is_listener (map (Bind_probe host) ports) = []"
  by (induction ports) (simp_all add: is_listener_def)

lemma no_listener_exhausted:
  "filter is_listener
     (Print Title # show_network_info P w @ Chdir # fst (check_files w)
        @ map (Bind_probe host) ports @ [Print m]) = []"
  by (simp add: no_listener_show_network_info no_listener_check_files
      no_listener_wildcard_probes is_listener_def)

lemma str_8000: "str 8000 = ''8000''"
  by (simp add: str_def str_nat.simps)

lemma str_8010: "str 8010 = ''8010''"
  by (simp add: str_def str_nat.simps)

lemma start_server_no_index:
  "\<not> exists_file w ''index.html'' \<Longrightarrow>
   start_server P H env w = ([Chdir, Print Index_not_found], Returns ())"
  by (simp add: start_server_def start_server_try_def caught_def check_files_def)

section \<open>No free port\<close>

text \<open>
  C4. When \<open>PORT\<close> is not set, \<^verbatim>\<open>index.html\<close> is present and binding the wildcard address
  fails on every port from 8000 to 8009, \<open>find_free_port\<close> tries the ten ports and raises
  the \<open>OSError\<close> whose message gives the bounds of the range it scanned, 8000 and 8010
  (the end of a Python range, which is not tried itself). \<^verbatim>\<open>start_server\<close> prints the
  error and returns: the run consists of the printed lines, the change of directory and
  the ten probes, the constructor of the server is never called, and the process exits
  with code 0 without a traceback.
\<close>

theorem port_exhausted:
  assumes unset: "env ''PORT'' = None"
    and index: "exists_file w ''index.html''"
    and taken: "\<forall>p \<in> {8000 .. 8009}. bind_error w ''0.0.0.0'' p \<noteq> None"
  shows "find_free_port env w 8000 10 =
           (map (Pair ''0.0.0.0'') [8000 .. 8009],
            Inl (OSError ''Could not find a free port in range 8000-8010'')) \<and>
         script env w =
           (Print Title # show_network_info 8000 w @ Chdir # fst (check_files w)
              @ map (Bind_probe ''0.0.0.0'') [8000 .. 8009]
              @ [Print (Port_error (OSError ''Could not find a free port in range 8000-8010''))],
            Exit 0) \<and>
         filter is_listener (fst (script env w)) = []"
proof -
  let ?e = "OSError ''Could not find a free port in range 8000-8010''"
  have "0 \<le> p \<and> p \<le> 65535 \<and> bind_error w ''0.0.0.0'' p \<noteq> None"
    if "p \<in> set [8000 .. 8009]" for p
  proof -
    from that have "p \<in> {8000 .. 8009}" by (simp only: set_upto)
    with taken show ?thesis by auto
  qed
  then have "find_free_port_loop w ([8000 .. 8009] @ []) =
      (map (Pair ''0.0.0.0'') [8000 .. 8009] @ fst (find_free_port_loop w []),
       snd (find_free_port_loop w []))"
    by (rule loop_skips_taken)
  then have loop: "find_free_port_loop w [8000 .. 8000 + 10 - 1] =
      (map (Pair ''0.0.0.0'') [8000 .. 8009], None)"
    by (simp del: upto_rec_numeral)
  have found: "find_free_port env w 8000 10 = (map (Pair ''0.0.0.0'') [8000 .. 8009], Inl ?e)"
    unfolding find_free_port_def loop using unset by (simp add: str_8000 str_8010 del: upto_rec_numeral)
  have checked: "check_files w = (fst (check_files w), True)"
    using index by (simp add: check_files_def)
  have start: "start_server 8000 (HOST env) env w =
      (Chdir # fst (check_files w) @ map (Bind_probe ''0.0.0.0'') [8000 .. 8009]
         @ [Print (Port_error ?e)], Returns ())"
    unfolding start_server_def start_server_try_def found
    by (subst checked) (simp add: caught_def probes_wildcard del: upto_rec_numeral)
  have run: "script env w =
      (Print Title # show_network_info 8000 w @ Chdir # fst (check_files w)
         @ map (Bind_probe ''0.0.0.0'') [8000 .. 8009] @ [Print (Port_error ?e)], Exit 0)"
    using unset by (simp add: script_def PORT_def main_def start del: upto_rec_numeral)
  have "filter is_listener (fst (script env w)) = []"
    unfolding run fst_conv by (rule no_listener_exhausted)
  with found run show ?thesis
    by (intro conjI)
qed

theorem port_exhausted_witness:
  "env_unset ''PORT'' = None \<and> exists_file all_taken ''index.html'' \<and>
   snd (find_free_port env_unset all_taken 8000 10) =
     Inl (OSError ''Could not find a free port in range 8000-8010'') \<and>
   snd (script env_unset all_taken) = Exit 0 \<and>
   filter is_listener (fst (script env_unset all_taken)) = []"
proof -
  have unset: "env_unset ''PORT'' = None"
    by (simp add: env_unset_def)
  have index: "exists_file all_taken ''index.html''"
    by (simp add: all_taken_def dev_world_def)
  have taken: "\<forall>p \<in> {8000 .. 8009}. bind_error all_taken ''0.0.0.0'' p \<noteq> None"
    by (simp add: all_taken_def dev_world_def)
  note exhausted = port_exhausted [of env_unset all_taken, OF unset index taken]
  have "snd (find_free_port env_unset all_taken 8000 10) =
       Inl (OSError ''Could not find a free port in range 8000-8010'')"
    by (simp only: exhausted [THEN conjunct1] snd_conv)
  moreover have "snd (script env_unset all_taken) = Exit 0"
    by (simp only: exhausted [THEN conjunct2, THEN conjunct1] snd_conv)
  moreover have "filter is_listener (fst (script env_unset all_taken)) = []"
    by (rule exhausted [THEN conjunct2, THEN conjunct2])
  ultimately show ?thesis
    using unset index by (intro conjI)
qed

section \<open>Missing index document\<close>

text \<open>
  C6. When \<^verbatim>\<open>index.html\<close> is absent from the serving root, \<^verbatim>\<open>start_server\<close> changes
  directory, prints the error of \<^verbatim>\<open>check_files\<close> and returns, whatever the port, the
  host and the environment are: no port is probed and the constructor of the server is
  never called. The script as a whole creates no listener either: it ends with exit code
  0 after the error message, or at the import when \<open>PORT\<close> cannot be read.
\<close>

theorem missing_index_aborts:
  assumes "\<not> exists_file w ''index.html''"
  shows "start_server P H env w = ([Chdir, Print Index_not_found], Returns ()) \<and>
         script env w =
           (case PORT w env of
              Inl e \<Rightarrow> ([Traceback e], Exit 1)
            | Inr P \<Rightarrow>
                (Print Title # show_network_info P w @ [Chdir, Print Index_not_found], Exit 0)) \<and>
         filter is_listener (fst (script env w)) = []"
proof (intro conjI)
  show "start_server P H env w = ([Chdir, Print Index_not_found], Returns ())"
    using assms by (rule start_server_no_index)
  show run: "script env w =
           (case PORT w env of
              Inl e \<Rightarrow> ([Traceback e], Exit 1)
            | Inr P \<Rightarrow>
                (Print Title # show_network_info P w @ [Chdir, Print Index_not_found], Exit 0))"
    using assms by (simp add: script_def main_def start_server_no_index split: sum.splits)
  show "filter is_listener (fst (script env w)) = []"
    unfolding run
    by (cases "PORT w env") (simp_all add: no_listener_show_network_info is_listener_def)
qed

theorem missing_index_aborts_witness:
  "\<not> exists_file no_index ''index.html'' \<and>
   start_server 8000 ''0.0.0.0'' env_unset no_index = ([Chdir, Print Index_not_found], Returns ()) \<and>
   script env_unset no_index =
     ([Print Title, Print (Network_information ''devbox'' ''192.168.1.20'' 8000), Chdir,
       Print Index_not_found], Exit 0) \<and>
   filter is_listener (fst (script env_unset no_index)) = []"
proof -
  have missing: "\<not> exists_file no_index ''index.html''"
    by (simp add: no_index_def dev_world_def)
  have port: "PORT no_index env_unset = Inr 8000"
    by (simp add: PORT_def env_unset_def)
  have info: "show_network_info 8000 no_index =
      [Print (Network_information ''devbox'' ''192.168.1.20'' 8000)]"
    by (simp add: show_network_info_def no_index_def dev_world_def)
  note aborts = missing_index_aborts [of no_index 8000 "''0.0.0.0''" env_unset, OF missing]
  have "script env_unset no_index =
     ([Print Title, Print (Network_information ''devbox'' ''192.168.1.20'' 8000), Chdir,
       Print Index_not_found], Exit 0)"
    using aborts [THEN conjunct2, THEN conjunct1] by (simp add: port info)
  with missing aborts [THEN conjunct1] show ?thesis
    using aborts [THEN conjunct2, THEN conjunct2] by (intro conjI)
qed

section \<open>Exit codes\<close>




section \<open>An invalid \<open>PORT\<close>\<close>

text \<open>
  C9. When \<open>PORT\<close> is set to a value for which \<^verbatim>\<open>int\<close> raises \<open>ValueError\<close>, whatever the
  interpreter's \<^verbatim>\<open>int\<close> accepts, the exception is raised by the assignment of \<^verbatim>\<open>PORT\<close>
  in the module body and nobody catches it: the run consists of the traceback alone (no
  line of \<^verbatim>\<open>main\<close> is printed, no file is checked, no port is probed, no server is
  constructed) and the process exits with a non-zero code.
\<close>

theorem import_value_error:
  assumes "env ''PORT'' = Some s"
    and "int_literal w s = None"
  shows "PORT w env = Inl ValueError \<and> script env w = ([Traceback ValueError], Exit 1)"
  using assms by (simp add: script_def PORT_def py_int_def)

theorem import_value_error_witness:
  "env_port_http ''PORT'' = Some ''http'' \<and> int_literal dev_world ''http'' = None \<and>
   PORT dev_world env_port_http = Inl ValueError \<and>
   script env_port_http dev_world = ([Traceback ValueError], Exit 1)"
proof -
  have set: "env_port_http ''PORT'' = Some ''http''"
    by (simp add: env_port_http_def)
  have "int_utf8 ''http'' = None"
    by code_simp
  then have invalid: "int_literal dev_world ''http'' = None"
    by (simp add: dev_world_def)
  note raised = import_value_error [of env_port_http "''http''" dev_world, OF set invalid]
  from set invalid raised [THEN conjunct1] raised [THEN conjunct2]
  show ?thesis
    by (intro conjI)
qed

section \<open>Facts about the handler\<close>

lemma send_header_keeps [simp]:
  "request_version (send_header h keyword val) = request_version h"
  "path (send_header h keyword val) = path h"
  "wfile (send_header h keyword val) = wfile h"
  by (simp_all add: send_header_def)

lemma send_header_buffer:
  "request_version h \<noteq> ''HTTP/0.9'' \<Longrightarrow>
   headers_buffer (send_header h keyword val) = headers_buffer h @ [header_line keyword val]"
  by (simp add: send_header_def)

lemma send_header_simple:
  "request_version h = ''HTTP/0.9'' \<Longrightarrow> send_header h keyword val = h"
  by (simp add: send_header_def)

lemma send_response_only_keeps [simp]:
  "request_version (send_response_only h code message) = request_version h"
  "path (send_response_only h code message) = path h"
  "wfile (send_response_only h code message) = wfile h"
  by (simp_all add: send_response_only_def)

lemma send_response_only_buffer:
  "request_version h \<noteq> ''HTTP/0.9'' \<Longrightarrow>
   headers_buffer (send_response_only h code message) =
     headers_buffer h @ [status_line code message]"
  by (simp add: send_response_only_def)

lemma base_end_headers_keeps [simp]:
  "request_version (base_end_headers h) = request_version h"
  "path (base_end_headers h) = path h"
  by (simp_all add: base_end_headers_def flush_headers_def)

lemma base_end_headers_wfile:
  "request_version h \<noteq> ''HTTP/0.9'' \<Longrightarrow>
   wfile (base_end_headers h) = wfile h @ [header_block (headers_buffer h)]"
  by (simp add: base_end_headers_def flush_headers_def header_block_def)

lemma base_end_headers_simple:
  "request_version h = ''HTTP/0.9'' \<Longrightarrow> base_end_headers h = h"
  by (simp add: base_end_headers_def)

lemma end_headers_keeps [simp]:
  "request_version (end_headers h) = request_version h"
  "path (end_headers h) = path h"
  by (simp_all add: end_headers_def Let_def)

text \<open>
  What \<^verbatim>\<open>end_headers\<close> writes when the version is not HTTP/0.9: one header block, made of
  the lines buffered so far and the six injected lines.
\<close>

lemma end_headers_wfile:
  assumes "request_version h \<noteq> ''HTTP/0.9''"
  shows "wfile (end_headers h) = wfile h @ [header_block (headers_buffer h @ injected_lines)]"
  using assms
  by (simp add: end_headers_def Let_def base_end_headers_wfile send_header_buffer
      injected_lines_def injected_headers_def)

lemma end_headers_simple:
  "request_version h = ''HTTP/0.9'' \<Longrightarrow> end_headers h = h"
  by (simp add: end_headers_def Let_def base_end_headers_simple send_header_simple)

lemma request_version_perform [simp]: "request_version (perform c h) = request_version h"
  by (cases c) simp_all

lemma path_perform [simp]: "path (perform c h) = path h"
  by (cases c) simp_all

lemma respond_Cons: "respond (c # calls) h = respond calls (perform c h)"
  by (simp add: respond_def)

lemma respond_append: "respond (before @ after) h = respond after (respond before h)"
  by (simp add: respond_def)

lemma request_version_respond [simp]: "request_version (respond calls h) = request_version h"
  by (induction calls arbitrary: h) (simp_all add: respond_Cons, simp add: respond_def)

lemma path_respond [simp]: "path (respond calls h) = path h"
  by (induction calls arbitrary: h) (simp_all add: respond_Cons, simp add: respond_def)

text \<open>Nothing that was written to the client is taken back.\<close>

lemma wfile_perform: "prefix (wfile h) (wfile (perform c h))"
proof (cases c)
  case End_headers
  show ?thesis
  proof (cases "request_version h = ''HTTP/0.9''")
    case True
    with End_headers show ?thesis by (simp add: end_headers_simple)
  next
    case False
    with End_headers show ?thesis by (simp add: end_headers_wfile)
  qed
qed simp_all

lemma wfile_respond: "prefix (wfile h) (wfile (respond calls h))"
proof (induction calls arbitrary: h)
  case Nil
  show ?case by (simp add: respond_def)
next
  case (Cons c calls)
  have "prefix (wfile h) (wfile (perform c h))"
    by (rule wfile_perform)
  also have "prefix (wfile (perform c h)) (wfile (respond calls (perform c h)))"
    by (rule Cons.IH)
  finally show ?case by (simp add: respond_Cons)
qed

text \<open>
  Until the headers are ended, the calls of the library fill the buffer and write as
  \<open>buffered\<close> and \<open>written\<close> say.
\<close>

lemma perform_before_end:
  assumes "request_version h \<noteq> ''HTTP/0.9''" and "c \<noteq> End_headers"
  shows "headers_buffer (perform c h) = headers_buffer h @ call_lines c"
    and "wfile (perform c h) = wfile h @ call_writes c"
  using assms
  by (cases c; simp add: send_response_only_buffer send_header_buffer)+

lemma respond_before_end:
  assumes "request_version h \<noteq> ''HTTP/0.9''" and "End_headers \<notin> set calls"
  shows "headers_buffer (respond calls h) = headers_buffer h @ buffered calls \<and>
         wfile (respond calls h) = wfile h @ written calls"
  using assms
proof (induction calls arbitrary: h)
  case Nil
  show ?case by (simp add: respond_def buffered_def written_def)
next
  case (Cons c calls)
  from Cons.prems have c: "c \<noteq> End_headers" and rest: "End_headers \<notin> set calls"
    by auto
  have "request_version (perform c h) \<noteq> ''HTTP/0.9''"
    using Cons.prems(1) by simp
  from Cons.IH [OF this rest] perform_before_end [OF Cons.prems(1) c]
  show ?case
    by (simp add: respond_Cons buffered_def written_def)
qed

lemma str_200: "str 200 = ''200''"
  by (simp add: str_def str_nat.simps)

lemma str_301: "str 301 = ''301''"
  by (simp add: str_def str_nat.simps)

lemma str_404: "str 404 = ''404''"
  by (simp add: str_def str_nat.simps)

section \<open>Injected headers\<close>

text \<open>
  C1, as stated, fails while the attribute \<^verbatim>\<open>request_version\<close> of the handler is
  \<^verbatim>\<open>'HTTP/0.9'\<close>: the six calls of \<^verbatim>\<open>send_header\<close> and \<^verbatim>\<open>super().end_headers()\<close> do
  nothing then. The response to the request line \<^verbatim>\<open>GET /index.html\<close> is one write, the
  body of the file, and the bytes of none of the six header lines occur in it.
\<close>

theorem simple_request_no_headers:
  "request_version simple_request = ''HTTP/0.9'' \<and>
   wfile (do_GET index_only simple_request) = [''<html></html>''] \<and>
   filter (includes_header (concat (wfile (do_GET index_only simple_request)))) injected_headers
     = []"
  by code_simp

text \<open>
  C1, amended. While the attribute \<^verbatim>\<open>request_version\<close> of the handler is not
  \<^verbatim>\<open>'HTTP/0.9'\<close>, every response carries the six header lines, whatever its status line,
  its other headers and its body are: when the library ends the headers of a response,
  after any calls \<open>before\<close> and followed by any calls \<open>after\<close>, the handler writes one
  header block, which consists of the lines buffered until then, of the six injected
  lines in the order of the source, and of the blank line.
\<close>

theorem injected_headers_sent:
  assumes "request_version h \<noteq> ''HTTP/0.9''"
    and "End_headers \<notin> set before"
  shows "prefix
           (wfile h @ written before
              @ [header_block (headers_buffer h @ buffered before @ injected_lines)])
           (wfile (respond (before @ End_headers # after) h))"
proof -
  define h1 where "h1 = respond before h"
  have version: "request_version h1 \<noteq> ''HTTP/0.9''"
    using assms(1) by (simp add: h1_def)
  have before: "headers_buffer h1 = headers_buffer h @ buffered before"
    "wfile h1 = wfile h @ written before"
    using respond_before_end [OF assms] by (simp_all add: h1_def)
  have "respond (before @ End_headers # after) h = respond after (end_headers h1)"
    by (simp add: respond_append respond_Cons h1_def)
  moreover have "prefix (wfile (end_headers h1)) (wfile (respond after (end_headers h1)))"
    by (rule wfile_respond)
  moreover have "wfile (end_headers h1) =
      wfile h @ written before
        @ [header_block (headers_buffer h @ buffered before @ injected_lines)]"
    using end_headers_wfile [OF version] by (simp add: before)
  ultimately show ?thesis
    by simp
qed

theorem injected_headers_sent_witness:
  "request_version missing_request \<noteq> ''HTTP/0.9'' \<and> End_headers \<notin> set not_found_head \<and>
   do_GET index_only missing_request =
     respond (not_found_head @ End_headers # [Write ''Not found'']) missing_request \<and>
   prefix
     [header_block
        [status_line 404 ''File not found'',
         header_line ''Server'' ''SimpleHTTP/0.6 Python/3.11.10'',
         header_line ''Date'' ''Tue, 03 Nov 2026 10:00:00 GMT'',
         header_line ''Connection'' ''close'',
         header_line ''Content-Type'' ''text/html;charset=utf-8'',
         header_line ''Content-Length'' ''9'',
         header_line ''Access-Control-Allow-Origin'' ''*'',
         header_line ''Access-Control-Allow-Methods'' ''GET, POST, OPTIONS'',
         header_line ''Access-Control-Allow-Headers'' ''Content-Type'',
         header_line ''X-Content-Type-Options'' ''nosniff'',
         header_line ''X-Frame-Options'' ''DENY'',
         header_line ''X-XSS-Protection'' ''1; mode=block'']]
     (wfile (do_GET index_only missing_request))"
proof -
  have version: "request_version missing_request \<noteq> ''HTTP/0.9''"
    by (simp add: missing_request_def)
  have ended: "End_headers \<notin> set not_found_head"
    by (simp add: not_found_head_def)
  have served: "do_GET index_only missing_request =
     respond (not_found_head @ End_headers # [Write ''Not found'']) missing_request"
    by (simp add: do_GET_def Let_def index_only_def not_found_calls_def missing_request_def)
  have fresh: "wfile missing_request = []" "headers_buffer missing_request = []"
    by (simp_all add: missing_request_def)
  have parts: "written not_found_head = []"
    "buffered not_found_head =
       [status_line 404 ''File not found'',
        header_line ''Server'' ''SimpleHTTP/0.6 Python/3.11.10'',
        header_line ''Date'' ''Tue, 03 Nov 2026 10:00:00 GMT'',
        header_line ''Connection'' ''close'',
        header_line ''Content-Type'' ''text/html;charset=utf-8'',
        header_line ''Content-Length'' ''9'']"
    by (simp_all add: written_def buffered_def not_found_head_def)
  have lines: "injected_lines =
       [header_line ''Access-Control-Allow-Origin'' ''*'',
        header_line ''Access-Control-Allow-Methods'' ''GET, POST, OPTIONS'',
        header_line ''Access-Control-Allow-Headers'' ''Content-Type'',
        header_line ''X-Content-Type-Options'' ''nosniff'',
        header_line ''X-Frame-Options'' ''DENY'',
        header_line ''X-XSS-Protection'' ''1; mode=block'']"
    by (simp add: injected_lines_def injected_headers_def)
  from injected_headers_sent [OF version ended, of "[Write ''Not found'']"]
  have "prefix
     [header_block
        [status_line 404 ''File not found'',
         header_line ''Server'' ''SimpleHTTP/0.6 Python/3.11.10'',
         header_line ''Date'' ''Tue, 03 Nov 2026 10:00:00 GMT'',
         header_line ''Connection'' ''close'',
         header_line ''Content-Type'' ''text/html;charset=utf-8'',
         header_line ''Content-Length'' ''9'',
         header_line ''Access-Control-Allow-Origin'' ''*'',
         header_line ''Access-Control-Allow-Methods'' ''GET, POST, OPTIONS'',
         header_line ''Access-Control-Allow-Headers'' ''Content-Type'',
         header_line ''X-Content-Type-Options'' ''nosniff'',
         header_line ''X-Frame-Options'' ''DENY'',
         header_line ''X-XSS-Protection'' ''1; mode=block'']]
     (wfile (do_GET index_only missing_request))"
    by (simp only: served fresh parts lines append_Nil append.simps)
  with version ended served show ?thesis
    by (intro conjI)
qed

section \<open>The root path\<close>

text \<open>
  C5, as stated, fails for requests that are not GET requests: the class overrides
  \<^verbatim>\<open>do_GET\<close> alone, so a HEAD request for \<^verbatim>\<open>/\<close> reaches the lookup of the library with
  the path \<^verbatim>\<open>/\<close>. Where \<^verbatim>\<open>index.html\<close> is a directory, \<^verbatim>\<open>HEAD /\<close> is answered by 200 and
  \<^verbatim>\<open>HEAD /index.html\<close> by 301.
\<close>

theorem head_root_not_rewritten:
  "path (do_HEAD index_is_directory head_root) = ''/'' \<and>
   prefix (status_line 200 ''OK'') (concat (wfile (do_HEAD index_is_directory head_root))) \<and>
   prefix (status_line 301 ''Moved Permanently'')
     (concat (wfile (do_HEAD index_is_directory head_index))) \<and>
   wfile (do_HEAD index_is_directory head_root) \<noteq> wfile (do_HEAD index_is_directory head_index)"
proof -
  have root_version: "request_version head_root \<noteq> ''HTTP/0.9''"
    and index_version: "request_version head_index \<noteq> ''HTTP/0.9''"
    by (simp_all add: head_root_def head_index_def)
  have fresh: "wfile head_root = []" "headers_buffer head_root = []"
    "wfile head_index = []" "headers_buffer head_index = []"
    by (simp_all add: head_root_def head_index_def)
  have root_calls: "index_is_directory head_root = butlast listing_calls @ [End_headers]"
    and index_calls: "index_is_directory head_index = butlast moved_calls @ [End_headers]"
    by (simp_all add: index_is_directory_def head_root_def head_index_def listing_calls_def
        moved_calls_def)
  have root_before: "End_headers \<notin> set (butlast listing_calls)"
    and index_before: "End_headers \<notin> set (butlast moved_calls)"
    by (simp_all add: listing_calls_def moved_calls_def)
  have root: "wfile (do_HEAD index_is_directory head_root) =
      [header_block (buffered (butlast listing_calls) @ injected_lines)]"
    using respond_before_end [OF root_version root_before]
      end_headers_wfile [of "respond (butlast listing_calls) head_root"] root_version
    by (simp add: do_HEAD_def root_calls respond_append respond_Cons fresh written_def
        listing_calls_def, simp add: respond_def)
  have index: "wfile (do_HEAD index_is_directory head_index) =
      [header_block (buffered (butlast moved_calls) @ injected_lines)]"
    using respond_before_end [OF index_version index_before]
      end_headers_wfile [of "respond (butlast moved_calls) head_index"] index_version
    by (simp add: do_HEAD_def index_calls respond_append respond_Cons fresh written_def
        moved_calls_def, simp add: respond_def)
  have "path (do_HEAD index_is_directory head_root) = ''/''"
    by (simp add: do_HEAD_def head_root_def)
  moreover have "prefix (status_line 200 ''OK'')
      (concat (wfile (do_HEAD index_is_directory head_root)))"
    by (simp add: root buffered_def listing_calls_def header_block_def)
  moreover have "prefix (status_line 301 ''Moved Permanently'')
      (concat (wfile (do_HEAD index_is_directory head_index)))"
    by (simp add: index buffered_def moved_calls_def header_block_def)
  moreover have "wfile (do_HEAD index_is_directory head_root) \<noteq>
      wfile (do_HEAD index_is_directory head_index)"
    by (simp add: root index buffered_def listing_calls_def moved_calls_def header_block_def
        status_line_def str_200 str_301)
  ultimately show ?thesis
    by (intro conjI)
qed

text \<open>
  C5, amended. A GET request for the path \<^verbatim>\<open>/\<close> is handed to the static-file lookup
  with the path \<^verbatim>\<open>/index.html\<close>, and the handler ends in the very state, with the same
  writes (status line, headers and body), in which a GET request for \<^verbatim>\<open>/index.html\<close>
  that is otherwise the same ends.
\<close>

theorem root_served_as_index:
  "do_GET super_do_GET (h\<lparr>path := ''/''\<rparr>) =
     respond (super_do_GET (h\<lparr>path := ''/index.html''\<rparr>)) (h\<lparr>path := ''/index.html''\<rparr>) \<and>
   do_GET super_do_GET (h\<lparr>path := ''/''\<rparr>) = do_GET super_do_GET (h\<lparr>path := ''/index.html''\<rparr>)"
  by (simp add: do_GET_def Let_def)

end
